theory Spec2Isabelle
  imports Complex_Main "HOL-Library.AList"
begin

section \<open>Floating-point values as the matcher sees them\<close>

text \<open>
  The embeddings are numpy float arrays. numpy arithmetic does not raise on a division by
  zero or on an invalid operation: it yields an infinity or a NaN (with a warning only),
  and every ordered comparison with a NaN is false. The matcher's result depends on exactly
  these special values, so they are part of the model. A finite value is an exact real:
  rounding, overflow of finite results and the sign of zero are not modelled.
\<close>

datatype fval = Fin real | PInf | NInf | NaN

fun fadd :: "fval \<Rightarrow> fval \<Rightarrow> fval" where
  "fadd NaN _ = NaN"
| "fadd _ NaN = NaN"
| "fadd (Fin a) (Fin b) = Fin (a + b)"
| "fadd PInf NInf = NaN"
| "fadd NInf PInf = NaN"
| "fadd PInf _ = PInf"
| "fadd _ PInf = PInf"
| "fadd NInf _ = NInf"
| "fadd _ NInf = NInf"

fun fmul :: "fval \<Rightarrow> fval \<Rightarrow> fval" where
  "fmul NaN _ = NaN"
| "fmul _ NaN = NaN"
| "fmul (Fin a) (Fin b) = Fin (a * b)"
| "fmul (Fin a) PInf = (if a = 0 then NaN else if 0 < a then PInf else NInf)"
| "fmul (Fin a) NInf = (if a = 0 then NaN else if 0 < a then NInf else PInf)"
| "fmul PInf (Fin b) = (if b = 0 then NaN else if 0 < b then PInf else NInf)"
| "fmul NInf (Fin b) = (if b = 0 then NaN else if 0 < b then NInf else PInf)"
| "fmul PInf PInf = PInf"
| "fmul NInf NInf = PInf"
| "fmul PInf NInf = NInf"
| "fmul NInf PInf = NInf"

text \<open>Division as numpy does it: \<open>0/0\<close> and \<open>inf/inf\<close> are NaN, \<open>x/0\<close> is an infinity.\<close>

fun fdiv :: "fval \<Rightarrow> fval \<Rightarrow> fval" where
  "fdiv NaN _ = NaN"
| "fdiv _ NaN = NaN"
| "fdiv (Fin a) (Fin b) =
     (if b = 0 then (if a = 0 then NaN else if 0 < a then PInf else NInf)
      else Fin (a / b))"
| "fdiv (Fin a) PInf = Fin 0"
| "fdiv (Fin a) NInf = Fin 0"
| "fdiv PInf (Fin b) = (if 0 \<le> b then PInf else NInf)"
| "fdiv NInf (Fin b) = (if 0 \<le> b then NInf else PInf)"
| "fdiv PInf PInf = NaN"
| "fdiv PInf NInf = NaN"
| "fdiv NInf PInf = NaN"
| "fdiv NInf NInf = NaN"

fun fsqrt :: "fval \<Rightarrow> fval" where
  "fsqrt NaN = NaN"
| "fsqrt (Fin a) = (if a < 0 then NaN else Fin (sqrt a))"
| "fsqrt PInf = PInf"
| "fsqrt NInf = NaN"

text \<open>The comparisons \<open><\<close> and \<open>>=\<close> of floats: false whenever an operand is a NaN.\<close>

fun flt :: "fval \<Rightarrow> fval \<Rightarrow> bool" where
  "flt NaN _ = False"
| "flt _ NaN = False"
| "flt (Fin a) (Fin b) = (a < b)"
| "flt (Fin a) PInf = True"
| "flt (Fin a) NInf = False"
| "flt PInf _ = False"
| "flt NInf (Fin b) = True"
| "flt NInf PInf = True"
| "flt NInf NInf = False"

fun fge :: "fval \<Rightarrow> fval \<Rightarrow> bool" where
  "fge NaN _ = False"
| "fge _ NaN = False"
| "fge (Fin a) (Fin b) = (b \<le> a)"
| "fge (Fin a) PInf = False"
| "fge (Fin a) NInf = True"
| "fge PInf _ = True"
| "fge NInf (Fin b) = False"
| "fge NInf PInf = False"
| "fge NInf NInf = True"

text \<open>
  Python's builtin \<open>min(a, b)\<close> keeps \<open>a\<close> unless \<open>b < a\<close>, and \<open>max(a, b)\<close> keeps
  \<open>a\<close> unless \<open>b > a\<close>: with a NaN as second argument both return the first.
\<close>

definition py_min :: "fval \<Rightarrow> fval \<Rightarrow> fval" where
  "py_min a b = (if flt b a then b else a)"

definition py_max :: "fval \<Rightarrow> fval \<Rightarrow> fval" where
  "py_max a b = (if flt a b then b else a)"

section \<open>The matcher: \<open>cosine_similarity\<close>\<close>

type_synonym vec = "fval list"

definition fsum :: "fval list \<Rightarrow> fval" where
  "fsum xs = foldl fadd (Fin 0) xs"

text \<open>\<open>np.linalg.norm\<close> of a one-dimensional array: the square root of the sum of squares.\<close>

definition np_norm :: "vec \<Rightarrow> fval" where
  "np_norm v = fsqrt (fsum (map (\<lambda>x. fmul x x) v))"

text \<open>\<open>vec / scalar\<close>: elementwise, never raising.\<close>

definition vec_div :: "vec \<Rightarrow> fval \<Rightarrow> vec" where
  "vec_div v d = map (\<lambda>x. fdiv x d) v"

text \<open>\<open>np.dot\<close> of two one-dimensional arrays raises ValueError when the lengths differ.\<close>

definition np_dot :: "vec \<Rightarrow> vec \<Rightarrow> fval option" where
  "np_dot a b =
     (if length a \<noteq> length b then None
      else Some (fsum (map (\<lambda>(x, y). fmul x y) (zip a b))))"

text \<open>
  \<open>cosine_similarity\<close> (face_recognition.py, lines 268-294): normalise both vectors,
  take the dot product, clamp with \<open>max(0.0, min(1.0, similarity))\<close>; the \<open>except\<close>
  branch returns \<open>0.0\<close>.
\<close>

definition cosine_similarity :: "vec \<Rightarrow> vec \<Rightarrow> fval" where
  "cosine_similarity vec1 vec2 =
     (let vec1_norm = vec_div vec1 (np_norm vec1);
          vec2_norm = vec_div vec2 (np_norm vec2)
      in case np_dot vec1_norm vec2_norm of
           None \<Rightarrow> Fin 0
         | Some similarity \<Rightarrow> py_max (Fin 0) (py_min (Fin 1) similarity))"

text \<open>
  The decision of \<open>compare_faces\<close> (lines 243-246):
  \<open>is_match = similarity >= threshold\<close> and
  \<open>confidence = min(similarity * 1.2, 1.0)\<close>.
\<close>

record decision =
  is_match :: bool
  confidence :: fval

definition decide :: "fval \<Rightarrow> fval \<Rightarrow> decision" where
  "decide similarity threshold =
     \<lparr> is_match = fge similarity threshold,
       confidence = py_min (fmul similarity (Fin 1.2)) (Fin 1) \<rparr>"

section \<open>The face extractor\<close>

text \<open>
  An image is a pixel buffer: its rows, and its width (kept apart, as numpy keeps the
  width of a buffer with no rows). A pixel is its three channel values.
\<close>

type_synonym pixel = "nat \<times> nat \<times> nat"

record image =
  img_width :: nat
  img_rows :: "pixel list list"

definition shape :: "image \<Rightarrow> nat \<times> nat \<times> nat" where
  "shape img = (length (img_rows img), img_width img, 3)"

text \<open>
  A detected face, as the model returns it: the box \<open>(x1, y1, x2, y2)\<close> (lines 129-130
  read it so) and the embedding. Box coordinates are finite and modelled as reals.
\<close>

record face =
  bbox :: "real \<times> real \<times> real \<times> real"
  embedding :: vec

text \<open>\<open>bbox[2]\<close> and \<open>bbox[3]\<close>.\<close>

definition bbox2 :: "face \<Rightarrow> real" where
  "bbox2 f = (case bbox f of (x1, y1, x2, y2) \<Rightarrow> x2)"

definition bbox3 :: "face \<Rightarrow> real" where
  "bbox3 f = (case bbox f of (x1, y1, x2, y2) \<Rightarrow> y2)"

text \<open>
  Python's \<open>max(xs, key=k)\<close>: the running maximum is replaced only by an element whose
  key is strictly greater, so the first of several maximal elements is returned.
\<close>

fun max_by :: "('a \<Rightarrow> real) \<Rightarrow> 'a \<Rightarrow> 'a list \<Rightarrow> 'a" where
  "max_by key cur [] = cur"
| "max_by key cur (x # xs) = max_by key (if key cur < key x then x else cur) xs"

text \<open>\<open>astype(int)\<close> truncates towards zero.\<close>

definition astype_int :: "real \<Rightarrow> int" where
  "astype_int r = (if 0 \<le> r then \<lfloor>r\<rfloor> else \<lceil>r\<rceil>)"

text \<open>A slice \<open>xs[a:b]\<close>: a negative bound counts from the end, and both are clipped.\<close>

definition slice_bound :: "nat \<Rightarrow> int \<Rightarrow> nat" where
  "slice_bound n i = (if i < 0 then nat (max 0 (i + int n)) else min (nat i) n)"

definition py_slice :: "int \<Rightarrow> int \<Rightarrow> 'a list \<Rightarrow> 'a list" where
  "py_slice a b xs =
     (let lo = slice_bound (length xs) a; hi = slice_bound (length xs) b
      in take (hi - lo) (drop lo xs))"

text \<open>\<open>image[y1:y2, x1:x2]\<close>.\<close>

definition crop :: "image \<Rightarrow> int \<Rightarrow> int \<Rightarrow> int \<Rightarrow> int \<Rightarrow> image" where
  "crop img y1 y2 x1 x2 =
     \<lparr> img_width = slice_bound (img_width img) x2 - slice_bound (img_width img) x1,
       img_rows = map (py_slice x1 x2) (py_slice y1 y2 (img_rows img)) \<rparr>"

text \<open>
  What the service takes from outside: the image codecs, the detection model, the clock
  and the outcome of writing the snapshot file. A \<open>None\<close> is a raised exception.
\<close>

datatype write_outcome = WriteOk | OpenFails | DumpFails

record env =
  decode_image :: "string \<Rightarrow> image option"
  app_get :: "image \<Rightarrow> face list option"
  now :: string
  write_result :: write_outcome

text \<open>
  \<open>detect_and_extract_face\<close> (lines 104-141). The result \<open>(None, None)\<close> is \<open>None\<close>
  here: no face, or an exception of the model. Every face the model returns carries an
  embedding, so a face image is returned together with an embedding or not at all.
\<close>

definition detect_and_extract_face :: "env \<Rightarrow> image \<Rightarrow> (image \<times> vec) option" where
  "detect_and_extract_face e img =
     (case app_get e img of
        None \<Rightarrow> None
      | Some [] \<Rightarrow> None
      | Some (f # fs) \<Rightarrow>
          (let face = max_by (\<lambda>x. bbox2 x * bbox3 x) f fs
           in case bbox face of (bx1, by1, bx2, by2) \<Rightarrow>
                (let x1 = astype_int bx1; y1 = astype_int by1;
                     x2 = astype_int bx2; y2 = astype_int by2;
                     face_img = crop img y1 y2 x1 x2
                 in Some (face_img, embedding face))))"

text \<open>
  The area of a box as the specification words it, width times height,
  \<open>(x2 - x1) * (y2 - y1)\<close>: the quantity the selected face is compared on below.
\<close>

definition area :: "face \<Rightarrow> real" where
  "area f = (case bbox f of (x1, y1, x2, y2) \<Rightarrow> (x2 - x1) * (y2 - y1))"

section \<open>The image decoder\<close>

fun split_on :: "char \<Rightarrow> string \<Rightarrow> string list" where
  "split_on c [] = [[]]"
| "split_on c (x # xs) =
     (if x = c then [] # split_on c xs
      else (case split_on c xs of
              [] \<Rightarrow> [[x]]
            | w # ws \<Rightarrow> (x # w) # ws))"

text \<open>
  \<open>base64_to_image\<close> (lines 74-102): when the data has a comma, keep the second of
  the pieces between commas (\<open>split(',')[1]\<close>), then decode. Every failure is re-raised
  as a ValueError (\<open>None\<close>).
\<close>

definition base64_to_image :: "env \<Rightarrow> string \<Rightarrow> image option" where
  "base64_to_image e base64_data =
     (let payload = (if CHR '','' \<in> set base64_data
                     then split_on CHR '','' base64_data ! 1
                     else base64_data)
      in decode_image e payload)"

section \<open>The embedding store\<close>

text \<open>
  The two dictionaries of the instance are association lists in insertion order:
  \<open>d[k] = v\<close> is \<open>AList.update\<close> (a new key goes last), \<open>del d[k]\<close> is
  \<open>AList.delete\<close>, \<open>k in d\<close> is membership in \<open>keys\<close>.
\<close>

type_synonym 'v pydict = "(string \<times> 'v) list"

definition keys :: "'v pydict \<Rightarrow> string set" where
  "keys d = fst ` set d"

record face_info =
  face_image :: image
  created_at :: string
  image_size :: "nat \<times> nat \<times> nat"

text \<open>
  The snapshot file \<open>user_data.pkl\<close>: absent, unreadable (a truncated or foreign file,
  on which \<open>pickle.load\<close> raises), or a pickled dictionary, of which only the entries
  \<open>'embeddings'\<close> and \<open>'faces'\<close> are read (each may be missing).
\<close>

datatype snapshot =
  NoFile
| Unreadable
| Pickled "vec pydict option" "face_info pydict option"

record state =
  user_embeddings :: "vec pydict"
  user_faces :: "face_info pydict"
  user_data_pkl :: snapshot

text \<open>\<open>load_user_data\<close> (lines 49-59); \<open>data.get(key, {})\<close> defaults to the empty dict.\<close>

definition load_user_data :: "state \<Rightarrow> state" where
  "load_user_data s =
     (case user_data_pkl s of
        NoFile \<Rightarrow> s
      | Unreadable \<Rightarrow> s
      | Pickled embs faces \<Rightarrow>
          s\<lparr> user_embeddings := (case embs of None \<Rightarrow> [] | Some d \<Rightarrow> d),
             user_faces := (case faces of None \<Rightarrow> [] | Some d \<Rightarrow> d) \<rparr>)"

text \<open>
  \<open>save_user_data\<close> (lines 61-72). Every exception is logged and swallowed: when
  \<open>open\<close> fails the file is as before, when \<open>pickle.dump\<close> fails the file, already
  truncated by \<open>open(..., 'wb')\<close>, is unreadable.
\<close>

definition save_user_data :: "env \<Rightarrow> state \<Rightarrow> state" where
  "save_user_data e s =
     (case write_result e of
        WriteOk \<Rightarrow>
          s\<lparr> user_data_pkl := Pickled (Some (user_embeddings s)) (Some (user_faces s)) \<rparr>
      | OpenFails \<Rightarrow> s
      | DumpFails \<Rightarrow> s\<lparr> user_data_pkl := Unreadable \<rparr>)"

text \<open>\<open>__init__\<close> (lines 24-47): two empty dictionaries, then \<open>load_user_data\<close>.\<close>

definition init :: "snapshot \<Rightarrow> state" where
  "init file =
     load_user_data \<lparr> user_embeddings = [], user_faces = [], user_data_pkl = file \<rparr>"

section \<open>Results\<close>

datatype exn = ValueError | TypeError | KeyError

text \<open>
  The messages of the result dictionaries, by meaning (the source's texts are Chinese):
  line 164 and 233 \<open>NoFaceDetected\<close>, 171 \<open>UserAlreadyExists\<close>, 189
  \<open>RegisterSucceeded\<close>, 201 \<open>RegisterFailed\<close>, 221 \<open>UserNotRegistered\<close>, 252
  \<open>CompareCompleted\<close>, 265 \<open>CompareFailed\<close>, 309 and 374 \<open>UserNotFound\<close>, 315
  \<open>GetUserSucceeded\<close>, 340 \<open>GetAllUsersSucceeded\<close>, 369 \<open>DeleteSucceeded\<close>, 381
  \<open>DeleteFailed\<close>; in main.py, 207 \<open>BatchCompleted\<close> and 202 \<open>ExceptionText\<close>.
\<close>

datatype message =
  NoFaceDetected
| UserAlreadyExists
| RegisterSucceeded
| RegisterFailed exn
| UserNotRegistered
| CompareCompleted
| CompareFailed exn
| UserNotFound
| GetUserSucceeded
| GetAllUsersSucceeded
| DeleteSucceeded
| DeleteFailed exn
| BatchCompleted
| ExceptionText exn

record 'd response =
  success :: bool
  message :: message
  data :: "'d option"

definition failure :: "message \<Rightarrow> 'd response" where
  "failure m = \<lparr> success = False, message = m, data = None \<rparr>"

record register_data =
  userId :: string
  faceCount :: nat

record compare_data =
  similarity :: fval
  isMatch :: bool
  confidence_value :: fval
  threshold :: fval

record user_data =
  user :: string
  createdAt :: string
  imageSize :: "nat \<times> nat \<times> nat"

record users_data =
  users :: "user_data list"
  totalCount :: nat

section \<open>The operations of \<open>InsightFaceRecognition\<close>\<close>

text \<open>\<open>register_face\<close> (lines 143-202).\<close>

definition register_face ::
  "env \<Rightarrow> string \<Rightarrow> string \<Rightarrow> state \<Rightarrow> register_data response \<times> state" where
  "register_face e user_id image_data s =
     (case base64_to_image e image_data of
        None \<Rightarrow> (failure (RegisterFailed ValueError), s)
      | Some img \<Rightarrow>
          (case detect_and_extract_face e img of
             None \<Rightarrow> (failure NoFaceDetected, s)
           | Some (face_img, emb) \<Rightarrow>
               if user_id \<in> keys (user_embeddings s) then (failure UserAlreadyExists, s)
               else
                 (let s1 = s\<lparr> user_embeddings :=
                              AList.update user_id emb (user_embeddings s) \<rparr>;
                      s2 = s1\<lparr> user_faces :=
                              AList.update user_id
                                \<lparr> face_image = face_img, created_at = now e,
                                  image_size = shape face_img \<rparr>
                                (user_faces s1) \<rparr>;
                      s3 = save_user_data e s2
                  in (\<lparr> success = True, message = RegisterSucceeded,
                        data = Some \<lparr> userId = user_id,
                                      faceCount = length (user_embeddings s3) \<rparr> \<rparr>,
                      s3))))"

text \<open>
  \<open>compare_faces\<close> (lines 204-266). It assigns nothing in the instance. The threshold is
  the request's optional field: with \<open>None\<close> the comparison of line 243 raises a
  TypeError, which the \<open>except\<close> branch reports.
\<close>

definition compare_faces ::
  "env \<Rightarrow> string \<Rightarrow> string \<Rightarrow> fval option \<Rightarrow> state \<Rightarrow> compare_data response" where
  "compare_faces e user_id image_data thr s =
     (if user_id \<notin> keys (user_embeddings s) then failure UserNotRegistered
      else
        (case base64_to_image e image_data of
           None \<Rightarrow> failure (CompareFailed ValueError)
         | Some img \<Rightarrow>
             (case detect_and_extract_face e img of
                None \<Rightarrow> failure NoFaceDetected
              | Some (face_img, emb) \<Rightarrow>
                  (case map_of (user_embeddings s) user_id of
                     None \<Rightarrow> failure (CompareFailed KeyError)
                   | Some stored_embedding \<Rightarrow>
                       (let sim = cosine_similarity emb stored_embedding
                        in case thr of
                             None \<Rightarrow> failure (CompareFailed TypeError)
                           | Some t \<Rightarrow>
                               (let d = decide sim t
                                in \<lparr> success = True, message = CompareCompleted,
                                     data = Some \<lparr> similarity = sim,
                                                   isMatch = is_match d,
                                                   confidence_value = confidence d,
                                                   threshold = t \<rparr> \<rparr>))))))"

text \<open>\<open>get_user_info\<close> (lines 296-321) and \<open>get_all_users\<close> (lines 323-345).\<close>

definition get_user_info :: "string \<Rightarrow> state \<Rightarrow> user_data response" where
  "get_user_info user_id s =
     (case map_of (user_faces s) user_id of
        None \<Rightarrow> failure UserNotFound
      | Some user_info \<Rightarrow>
          \<lparr> success = True, message = GetUserSucceeded,
            data = Some \<lparr> user = user_id, createdAt = created_at user_info,
                          imageSize = image_size user_info \<rparr> \<rparr>)"

definition get_all_users :: "state \<Rightarrow> users_data response" where
  "get_all_users s =
     (let user_list = map (\<lambda>(user_id, user_info).
                             \<lparr> user = user_id, createdAt = created_at user_info,
                               imageSize = image_size user_info \<rparr>) (user_faces s)
      in \<lparr> success = True, message = GetAllUsersSucceeded,
           data = Some \<lparr> users = user_list, totalCount = length user_list \<rparr> \<rparr>)"

text \<open>
  \<open>delete_user\<close> (lines 347-382). The second \<open>del\<close> raises a KeyError when the user has
  no metadata entry: the \<open>except\<close> branch then reports a failure, after the first
  \<open>del\<close> has taken effect and without saving.
\<close>

definition delete_user :: "env \<Rightarrow> string \<Rightarrow> state \<Rightarrow> unit response \<times> state" where
  "delete_user e user_id s =
     (if user_id \<in> keys (user_embeddings s) then
        (let s1 = s\<lparr> user_embeddings := AList.delete user_id (user_embeddings s) \<rparr>
         in if user_id \<in> keys (user_faces s1) then
              (let s2 = s1\<lparr> user_faces := AList.delete user_id (user_faces s1) \<rparr>;
                   s3 = save_user_data e s2
               in (\<lparr> success = True, message = DeleteSucceeded, data = None \<rparr>, s3))
            else (failure (DeleteFailed KeyError), s1))
      else (failure UserNotFound, s))"

section \<open>Batch comparison (main.py)\<close>

datatype http_error = ServiceNotReady

record batch_data =
  results :: "(nat \<times> compare_data) list"
  errors :: "(nat \<times> message) list"
  total :: nat
  successCount :: nat
  errorCount :: nat

text \<open>
  The loop of \<open>face_compare_batch\<close> (lines 180-203) over \<open>enumerate(imageDataList)\<close>,
  with the two lists it appends to. A successful result always carries its data; were it
  missing, \<open>result['data']\<close> would raise a KeyError, which the inner \<open>except\<close> records.
\<close>

fun batch_loop ::
  "env \<Rightarrow> string \<Rightarrow> fval option \<Rightarrow> state \<Rightarrow> (nat \<times> string) list \<Rightarrow>
   (nat \<times> compare_data) list \<Rightarrow> (nat \<times> message) list \<Rightarrow>
   (nat \<times> compare_data) list \<times> (nat \<times> message) list" where
  "batch_loop e user_id thr s [] rs es = (rs, es)"
| "batch_loop e user_id thr s ((i, image_data) # rest) rs es =
     (let result = compare_faces e user_id image_data thr s
      in if success result then
           (case data result of
              Some d \<Rightarrow> batch_loop e user_id thr s rest (rs @ [(i, d)]) es
            | None \<Rightarrow> batch_loop e user_id thr s rest rs (es @ [(i, ExceptionText KeyError)]))
         else batch_loop e user_id thr s rest rs (es @ [(i, message result)]))"

text \<open>
  \<open>face_compare_batch\<close> (lines 170-222). The global instance is \<open>None\<close> until the
  startup code has built it; the handler then answers 503.
\<close>

definition face_compare_batch ::
  "state option \<Rightarrow> env \<Rightarrow> string \<Rightarrow> string list \<Rightarrow> fval option \<Rightarrow>
   http_error + batch_data response" where
  "face_compare_batch face_recognition e user_id imageDataList thr =
     (case face_recognition of
        None \<Rightarrow> Inl ServiceNotReady
      | Some s \<Rightarrow>
          (case batch_loop e user_id thr s (List.enumerate 0 imageDataList) [] [] of
             (rs, es) \<Rightarrow>
               Inr \<lparr> success = True, message = BatchCompleted,
                     data = Some \<lparr> results = rs, errors = es,
                                   total = length imageDataList,
                                   successCount = length rs,
                                   errorCount = length es \<rparr> \<rparr>))"

text \<open>
  What the two lists are to be, position by position: an item is in \<open>results\<close> with its
  data when \<open>compare_faces\<close> succeeds on it, and in \<open>errors\<close> with the failure's message
  when it does not; both are in the order of the input.
\<close>

definition batch_results ::
  "env \<Rightarrow> string \<Rightarrow> fval option \<Rightarrow> state \<Rightarrow> (nat \<times> string) list \<Rightarrow>
   (nat \<times> compare_data) list" where
  "batch_results e user_id thr s xs =
     List.map_filter (\<lambda>(i, image_data).
        if success (compare_faces e user_id image_data thr s)
        then map_option (Pair i) (data (compare_faces e user_id image_data thr s))
        else None) xs"

definition batch_errors ::
  "env \<Rightarrow> string \<Rightarrow> fval option \<Rightarrow> state \<Rightarrow> (nat \<times> string) list \<Rightarrow>
   (nat \<times> message) list" where
  "batch_errors e user_id thr s xs =
     List.map_filter (\<lambda>(i, image_data).
        if success (compare_faces e user_id image_data thr s) then None
        else Some (i, message (compare_faces e user_id image_data thr s))) xs"

section \<open>The service as a transition system\<close>

text \<open>
  The operations on the instance, each with the environment it runs in. \<open>compare_faces\<close>,
  \<open>get_user_info\<close> and \<open>get_all_users\<close> assign nothing, so the instance after them is
  the instance before. \<open>Shutdown\<close> is the final \<open>save_user_data\<close> of main.py's lifespan,
  \<open>Restart\<close> a new process: a new instance built over the file the last one left.
\<close>

datatype operation =
  Register string string
| Compare string string "fval option"
| Delete string
| GetUser string
| ListUsers
| Load
| Shutdown
| Restart

fun run_op :: "env \<Rightarrow> operation \<Rightarrow> state \<Rightarrow> state" where
  "run_op e (Register user_id image_data) s = snd (register_face e user_id image_data s)"
| "run_op e (Compare user_id image_data thr) s = s"
| "run_op e (Delete user_id) s = snd (delete_user e user_id s)"
| "run_op e (GetUser user_id) s = s"
| "run_op e ListUsers s = s"
| "run_op e Load s = load_user_data s"
| "run_op e Shutdown s = save_user_data e s"
| "run_op e Restart s = init (user_data_pkl s)"

fun run_ops :: "(env \<times> operation) list \<Rightarrow> state \<Rightarrow> state" where
  "run_ops [] s = s"
| "run_ops ((e, opn) # rest) s = run_ops rest (run_op e opn s)"

text \<open>The invariant: both dictionaries hold the same user ids, in memory and in the file.\<close>

definition same_keys :: "state \<Rightarrow> bool" where
  "same_keys s = (keys (user_embeddings s) = keys (user_faces s))"

definition snapshot_same_keys :: "state \<Rightarrow> bool" where
  "snapshot_same_keys s =
     (case user_data_pkl s of
        NoFile \<Rightarrow> True
      | Unreadable \<Rightarrow> True
      | Pickled embs faces \<Rightarrow>
          keys (case embs of None \<Rightarrow> [] | Some d \<Rightarrow> d) =
          keys (case faces of None \<Rightarrow> [] | Some d \<Rightarrow> d))"

text \<open>The file holds exactly what is in memory.\<close>

definition snapshot_current :: "state \<Rightarrow> bool" where
  "snapshot_current s =
     (user_data_pkl s = Pickled (Some (user_embeddings s)) (Some (user_faces s)))"

section \<open>Example inputs\<close>

text \<open>A black image of 6 by 6 pixels, and its 4 by 4 corner.\<close>

definition example_image :: image where
  "example_image = \<lparr> img_width = 6, img_rows = replicate 6 (replicate 6 (0, 0, 0)) \<rparr>"

definition example_crop :: image where
  "example_crop = \<lparr> img_width = 4, img_rows = replicate 4 (replicate 4 (0, 0, 0)) \<rparr>"

text \<open>
  Two faces in it, and an environment in which every payload decodes to the example image,
  the model detects the given faces, and the snapshot file is written.
\<close>

definition face_large :: face where
  "face_large = \<lparr> bbox = (0, 0, 4, 4), embedding = [Fin 1, Fin 0] \<rparr>"

definition face_small :: face where
  "face_small = \<lparr> bbox = (5, 5, 6, 6), embedding = [Fin 0, Fin 1] \<rparr>"

definition env_with :: "face list \<Rightarrow> env" where
  "env_with fs = \<lparr> decode_image = (\<lambda>payload. Some example_image),
                   app_get = (\<lambda>img. Some fs),
                   now = ''2024-01-01T00:00:00'',
                   write_result = WriteOk \<rparr>"

definition alice_state :: state where
  "alice_state =
     \<lparr> user_embeddings = [(''alice'', [Fin 1, Fin 0])],
       user_faces = [(''alice'', \<lparr> face_image = example_crop,
                                  created_at = ''2024-01-01T00:00:00'',
                                  image_size = (4, 4, 3) \<rparr>)],
       user_data_pkl = NoFile \<rparr>"

section \<open>Properties of the matcher\<close>

lemma clamp_range:
  "\<exists>r. py_max (Fin 0) (py_min (Fin 1) x) = Fin r \<and> 0 \<le> r \<and> r \<le> 1"
  by (cases x) (auto simp: py_max_def py_min_def)

text \<open>
  C4: for every pair of vectors, whatever their lengths and entries (infinities and NaNs
  included), \<open>cosine_similarity\<close> returns a finite value between 0 and 1.
\<close>

theorem cosine_similarity_range:
  "\<exists>r. cosine_similarity a b = Fin r \<and> 0 \<le> r \<and> r \<le> 1"
  unfolding cosine_similarity_def Let_def
  by (cases "np_dot (vec_div a (np_norm a)) (vec_div b (np_norm b))")
     (simp_all add: clamp_range)

text \<open>
  C2: a vector of zero norm does not make \<open>cosine_similarity\<close> raise, but the result is
  not 0: the division yields NaNs, the dot product is a NaN, \<open>min(1.0, nan)\<close> keeps its
  first argument, and the similarity of the zero vector to \<open>[1.0]\<close> is 1.
\<close>

theorem zero_norm_similarity_is_one:
  "np_norm [Fin 0] = Fin 0 \<and> cosine_similarity [Fin 0] [Fin 1] = Fin 1"
  by (simp add: cosine_similarity_def np_norm_def fsum_def vec_div_def np_dot_def
      py_max_def py_min_def)


section \<open>Properties of the face extractor\<close>

text \<open>
  C1: the extractor maximises \<open>bbox[2] * bbox[3]\<close>, the product of the far corner's
  coordinates, not the area. Of a 4 by 4 box at the origin and a 1 by 1 box at (5, 5),
  returned in this order, it selects the second, the smaller one.
\<close>

theorem selection_by_corner_product:
  "area face_small < area face_large \<and>
   map_option snd (detect_and_extract_face (env_with [face_large, face_small]) example_image)
     = Some (embedding face_small)"
  by (simp add: area_def face_large_def face_small_def detect_and_extract_face_def
      env_with_def bbox2_def bbox3_def Let_def)

section \<open>Properties of the store operations\<close>

text \<open>
  C5, as the claim states it, fails: registering a present user id with an image in which
  no face is detected is answered with the no-face failure, not with the duplicate one.
\<close>

theorem register_existing_counterexample:
  "''alice'' \<in> keys (user_embeddings alice_state) \<and>
   fst (register_face (env_with []) ''alice'' ''x'' alice_state) = failure NoFaceDetected \<and>
   fst (register_face (env_with []) ''alice'' ''x'' alice_state) \<noteq> failure UserAlreadyExists"
  by (simp add: keys_def alice_state_def register_face_def base64_to_image_def env_with_def
      detect_and_extract_face_def failure_def)

text \<open>
  C5, amended: registering a user id that is already present fails and leaves the whole
  state as it was (both dictionaries and the file); the failure is the duplicate one when
  the image decodes and a face is detected in it, else the decoding or the no-face failure,
  which are checked first.
\<close>

theorem register_existing_user:
  "user_id \<in> keys (user_embeddings s) \<Longrightarrow>
   register_face e user_id image_data s =
     (failure (case base64_to_image e image_data of
                 None \<Rightarrow> RegisterFailed ValueError
               | Some img \<Rightarrow>
                   (case detect_and_extract_face e img of
                      None \<Rightarrow> NoFaceDetected
                    | Some found \<Rightarrow> UserAlreadyExists)), s)"
  by (simp add: register_face_def split: option.splits prod.splits)

theorem register_existing_user_witness:
  "''alice'' \<in> keys (user_embeddings alice_state) \<and>
   register_face (env_with [face_large]) ''alice'' ''x'' alice_state =
     (failure UserAlreadyExists, alice_state)"
  using register_existing_user [of "''alice''" alice_state "env_with [face_large]" "''x''"]
  by (simp add: keys_def alice_state_def base64_to_image_def env_with_def
      detect_and_extract_face_def Let_def split: prod.splits)

text \<open>
  C6: deleting a user id that is not in the store returns the not-found failure and leaves
  the whole state as it was.
\<close>

theorem delete_missing_user:
  "user_id \<notin> keys (user_embeddings s) \<Longrightarrow>
   delete_user e user_id s = (failure UserNotFound, s)"
  by (simp add: delete_user_def)

theorem delete_missing_user_witness:
  "''bob'' \<notin> keys (user_embeddings alice_state) \<and>
   delete_user (env_with []) ''bob'' alice_state = (failure UserNotFound, alice_state)"
  using delete_missing_user [of "''bob''" alice_state "env_with []"]
  by (simp add: keys_def alice_state_def)

section \<open>Properties of batch comparison\<close>

lemma compare_success_data:
  "success (compare_faces e u img thr s) \<Longrightarrow> data (compare_faces e u img thr s) \<noteq> None"
  unfolding compare_faces_def
  by (auto simp add: failure_def Let_def split: if_splits option.splits prod.splits)

lemma batch_loop_spec:
  "batch_loop e u thr s xs rs es =
     (rs @ batch_results e u thr s xs, es @ batch_errors e u thr s xs)"
proof (induction xs arbitrary: rs es)
  case Nil
  show ?case by (simp add: batch_results_def batch_errors_def)
next
  case (Cons x xs)
  obtain i img where x: "x = (i, img)" by (cases x)
  show ?case
  proof (cases "success (compare_faces e u img thr s)")
    case True
    then obtain d where d: "data (compare_faces e u img thr s) = Some d"
      using compare_success_data by blast
    show ?thesis using True d Cons.IH
      by (simp add: x batch_results_def batch_errors_def)
  next
    case False
    then show ?thesis using Cons.IH
      by (simp add: x batch_results_def batch_errors_def)
  qed
qed

lemma batch_partition:
  "length (batch_results e u thr s xs) + length (batch_errors e u thr s xs) = length xs"
proof (induction xs)
  case Nil
  show ?case by (simp add: batch_results_def batch_errors_def)
next
  case (Cons x xs)
  obtain i img where x: "x = (i, img)" by (cases x)
  show ?case
  proof (cases "success (compare_faces e u img thr s)")
    case True
    then obtain d where d: "data (compare_faces e u img thr s) = Some d"
      using compare_success_data by blast
    show ?thesis using True d Cons.IH
      by (simp add: x batch_results_def batch_errors_def)
  next
    case False
    then show ?thesis using Cons.IH
      by (simp add: x batch_results_def batch_errors_def)
  qed
qed

text \<open>
  C7: once the service is ready, \<open>face_compare_batch\<close> answers every list of payloads with
  a success. Its \<open>results\<close> are the data of the items on which \<open>compare_faces\<close> succeeds,
  its \<open>errors\<close> the messages of the items on which it fails, each tagged with the item's
  position and in input order, every item being compared against the same instance; the
  two lists together have one entry for each item.
\<close>

theorem face_compare_batch_spec:
  "face_compare_batch (Some s) e user_id imgs thr =
     Inr \<lparr> success = True, message = BatchCompleted,
           data = Some
             \<lparr> results = batch_results e user_id thr s (List.enumerate 0 imgs),
               errors = batch_errors e user_id thr s (List.enumerate 0 imgs),
               total = length imgs,
               successCount = length (batch_results e user_id thr s (List.enumerate 0 imgs)),
               errorCount = length (batch_errors e user_id thr s (List.enumerate 0 imgs)) \<rparr> \<rparr>
   \<and> length (batch_results e user_id thr s (List.enumerate 0 imgs)) +
     length (batch_errors e user_id thr s (List.enumerate 0 imgs)) = length imgs"
  by (simp add: face_compare_batch_def batch_loop_spec batch_partition)

text \<open>A batch of two images without a face: both items fail, the call succeeds.\<close>

theorem face_compare_batch_spec_witness:
  "face_compare_batch (Some alice_state) (env_with []) ''alice'' [''x'', ''y'']
     (Some (Fin 0.6)) =
     Inr \<lparr> success = True, message = BatchCompleted,
           data = Some \<lparr> results = [],
                         errors = [(0, NoFaceDetected), (1, NoFaceDetected)],
                         total = 2, successCount = 0, errorCount = 2 \<rparr> \<rparr>"
proof -
  have c: "\<And>img t. compare_faces (env_with []) ''alice'' img t alice_state
             = failure NoFaceDetected"
    by (simp add: compare_faces_def keys_def alice_state_def base64_to_image_def env_with_def
        detect_and_extract_face_def)
  have en: "List.enumerate 0 [''x'', ''y''] = [(0, ''x''), (Suc 0, ''y'')]"
    by (simp add: enumerate_eq_zip upt_rec)
  show ?thesis
    using face_compare_batch_spec
      [of alice_state "env_with []" "''alice''" "[''x'', ''y'']" "Some (Fin 0.6)"]
    by (simp add: en batch_results_def batch_errors_def c failure_def)
qed

section \<open>Properties of persistence\<close>

lemma save_current: "write_result e = WriteOk \<Longrightarrow> snapshot_current (save_user_data e s)"
  by (simp add: save_user_data_def snapshot_current_def)

text \<open>
  C8: when the write succeeds, a registration or a deletion that reports success returns
  with the file holding exactly the two dictionaries as they are in memory:
  \<open>save_user_data\<close> has run, after the mutation and before the return.
\<close>

theorem persist_after_mutation:
  "write_result e = WriteOk \<Longrightarrow>
   (success (fst (register_face e user_id image_data s)) \<longrightarrow>
      snapshot_current (snd (register_face e user_id image_data s))) \<and>
   (success (fst (delete_user e user_id s)) \<longrightarrow>
      snapshot_current (snd (delete_user e user_id s)))"
  by (auto simp add: register_face_def delete_user_def failure_def Let_def save_current
      split: option.splits prod.splits if_splits)

theorem persist_after_mutation_witness:
  "write_result (env_with [face_large]) = WriteOk \<and>
   success (fst (register_face (env_with [face_large]) ''bob'' ''x'' alice_state)) \<and>
   snapshot_current (snd (register_face (env_with [face_large]) ''bob'' ''x'' alice_state)) \<and>
   success (fst (delete_user (env_with [face_large]) ''alice'' alice_state)) \<and>
   snapshot_current (snd (delete_user (env_with [face_large]) ''alice'' alice_state))"
proof -
  have w: "write_result (env_with [face_large]) = WriteOk"
    by (simp add: env_with_def)
  have r: "success (fst (register_face (env_with [face_large]) ''bob'' ''x'' alice_state))"
    by (simp add: register_face_def base64_to_image_def env_with_def
        detect_and_extract_face_def keys_def alice_state_def Let_def split: prod.splits)
  have d: "success (fst (delete_user (env_with [face_large]) ''alice'' alice_state))"
    by (simp add: delete_user_def keys_def alice_state_def Let_def)
  show ?thesis
    using w r d
      persist_after_mutation [OF w, of "''bob''" "''x''" alice_state]
      persist_after_mutation [OF w, of "''alice''" "''x''" alice_state]
    by blast
qed

text \<open>
  C9: a state saved by a write that succeeds, then loaded by a new instance, gives back
  both dictionaries as they were: the same user ids, each with the same embedding and the
  same metadata.
\<close>

theorem persist_load_roundtrip:
  "write_result e = WriteOk \<Longrightarrow>
   user_embeddings (init (user_data_pkl (save_user_data e s))) = user_embeddings s \<and>
   user_faces (init (user_data_pkl (save_user_data e s))) = user_faces s"
  by (simp add: save_user_data_def init_def load_user_data_def)

theorem persist_load_roundtrip_witness:
  "write_result (env_with []) = WriteOk \<and>
   user_embeddings (init (user_data_pkl (save_user_data (env_with []) alice_state)))
     = user_embeddings alice_state \<and>
   user_faces (init (user_data_pkl (save_user_data (env_with []) alice_state)))
     = user_faces alice_state"
proof -
  have w: "write_result (env_with []) = WriteOk"
    by (simp add: env_with_def)
  show ?thesis using w persist_load_roundtrip [OF w, of alice_state] by simp
qed

section \<open>The two dictionaries hold the same user ids\<close>

lemma keys_update: "keys (AList.update k v d) = insert k (keys d)"
  by (simp add: keys_def dom_update)

lemma keys_delete: "keys (AList.delete k d) = keys d - {k}"
  by (auto simp add: keys_def AList.delete_eq)

lemma save_inv:
  "same_keys s \<Longrightarrow> snapshot_same_keys s \<Longrightarrow>
   same_keys (save_user_data e s) \<and> snapshot_same_keys (save_user_data e s)"
  by (cases "write_result e")
     (simp_all add: save_user_data_def same_keys_def snapshot_same_keys_def)

lemma load_inv:
  "same_keys s \<Longrightarrow> snapshot_same_keys s \<Longrightarrow> same_keys (load_user_data s)"
  by (cases "user_data_pkl s")
     (simp_all add: load_user_data_def same_keys_def snapshot_same_keys_def)

lemma load_snapshot: "snapshot_same_keys (load_user_data s) = snapshot_same_keys s"
  by (cases "user_data_pkl s") (simp_all add: load_user_data_def snapshot_same_keys_def)

lemma init_inv:
  "snapshot_same_keys s \<Longrightarrow>
   same_keys (init (user_data_pkl s)) \<and> snapshot_same_keys (init (user_data_pkl s))"
  by (cases "user_data_pkl s")
     (simp_all add: init_def load_user_data_def same_keys_def snapshot_same_keys_def keys_def)

lemma register_inv:
  assumes "same_keys s" and "snapshot_same_keys s"
  shows "same_keys (snd (register_face e u img s)) \<and>
         snapshot_same_keys (snd (register_face e u img s))"
proof -
  have m: "\<And>emb fi.
      same_keys (s\<lparr> user_embeddings := AList.update u emb (user_embeddings s),
                    user_faces := AList.update u fi (user_faces s) \<rparr>) \<and>
      snapshot_same_keys (s\<lparr> user_embeddings := AList.update u emb (user_embeddings s),
                             user_faces := AList.update u fi (user_faces s) \<rparr>)"
    using assms by (simp add: same_keys_def snapshot_same_keys_def keys_update)
  show ?thesis
    using assms m save_inv
    by (simp add: register_face_def Let_def split: option.splits prod.splits)
qed

lemma delete_inv:
  assumes "same_keys s" and "snapshot_same_keys s"
  shows "same_keys (snd (delete_user e u s)) \<and>
         snapshot_same_keys (snd (delete_user e u s))"
proof -
  have m: "same_keys (s\<lparr> user_embeddings := AList.delete u (user_embeddings s),
                          user_faces := AList.delete u (user_faces s) \<rparr>) \<and>
           snapshot_same_keys (s\<lparr> user_embeddings := AList.delete u (user_embeddings s),
                                   user_faces := AList.delete u (user_faces s) \<rparr>)"
    using assms by (simp add: same_keys_def snapshot_same_keys_def keys_delete)
  show ?thesis
  proof (cases "u \<in> keys (user_embeddings s)")
    case True
    then have "u \<in> keys (user_faces s)" using assms by (simp add: same_keys_def)
    then show ?thesis using True m save_inv
      by (simp add: delete_user_def Let_def)
  next
    case False
    then show ?thesis using assms by (simp add: delete_user_def)
  qed
qed

lemma run_op_inv:
  "same_keys s \<Longrightarrow> snapshot_same_keys s \<Longrightarrow>
   same_keys (run_op e opn s) \<and> snapshot_same_keys (run_op e opn s)"
  by (cases opn)
     (simp_all add: register_inv delete_inv load_inv load_snapshot save_inv init_inv)

lemma run_ops_inv:
  "same_keys s \<Longrightarrow> snapshot_same_keys s \<Longrightarrow>
   same_keys (run_ops steps s) \<and> snapshot_same_keys (run_ops steps s)"
proof (induction steps arbitrary: s)
  case Nil
  then show ?case by simp
next
  case (Cons step steps)
  obtain e opn where st: "step = (e, opn)" by (cases step)
  show ?case
    using Cons.IH [of "run_op e opn s"] run_op_inv [OF Cons.prems, of e opn]
    by (simp add: st)
qed

text \<open>
  From a first start with no snapshot file, whatever operations follow and whatever the
  environment does, the two dictionaries hold the same user ids.
\<close>

lemma same_keys_reachable: "same_keys (run_ops steps (init NoFile))"
proof -
  have "same_keys (init NoFile)" "snapshot_same_keys (init NoFile)"
    by (simp_all add: init_def load_user_data_def same_keys_def snapshot_same_keys_def
        keys_def)
  then show ?thesis using run_ops_inv by blast
qed

text \<open>
  C10: every operation preserves the invariant that \<open>user_embeddings\<close> and \<open>user_faces\<close>
  hold the same user ids. The invariant covers the snapshot file as well, which only
  \<open>save_user_data\<close> writes and from which \<open>load_user_data\<close> takes both dictionaries.
\<close>

theorem operations_preserve_same_keys:
  "same_keys s \<Longrightarrow> snapshot_same_keys s \<Longrightarrow>
   same_keys (run_op e opn s) \<and> snapshot_same_keys (run_op e opn s)"
  by (rule run_op_inv)

theorem operations_preserve_same_keys_witness:
  "same_keys alice_state \<and> snapshot_same_keys alice_state \<and>
   same_keys (run_op (env_with [face_large]) (Register ''bob'' ''x'') alice_state) \<and>
   snapshot_same_keys (run_op (env_with [face_large]) (Register ''bob'' ''x'') alice_state)"
proof -
  have a: "same_keys alice_state"
    by (simp add: same_keys_def keys_def alice_state_def)
  have b: "snapshot_same_keys alice_state"
    by (simp add: snapshot_same_keys_def alice_state_def)
  show ?thesis
    using a b
      operations_preserve_same_keys
        [OF a b, of "env_with [face_large]" "Register ''bob'' ''x''"]
    by simp
qed

end
